theory Spec2Isabelle
  imports Complex_Main
begin

section \<open>The robot arm (modules/robot\_arm.py)\<close>

text \<open>
  Coordinates, limits and confidences are Python numbers read from the YAML configuration
  or returned by the OCR engine. They are only ever compared and passed on, so they are
  modelled as \<^typ>\<open>real\<close>; the float \<^verbatim>\<open>nan\<close>, for which every comparison is false,
  has no counterpart here. A Python dict read with \<^verbatim>\<open>.get(key, default)\<close> is an
  association list looked up with \<^const>\<open>map_of\<close>.
\<close>

datatype position = HOME | CARD_PILE | SCAN | SUCCESS | FAILED

fun position_value :: "position \<Rightarrow> string" where
  "position_value HOME = ''home''"
| "position_value CARD_PILE = ''card_pile''"
| "position_value SCAN = ''scan_position''"
| "position_value SUCCESS = ''success_pile''"
| "position_value FAILED = ''failed_pile''"

text \<open>
  The command strings built by the arm, kept structured: \<open>G0 x y z rx ry rz f\<close> stands for
  \<^verbatim>\<open>f"G0 X{x} Y{y} Z{z} A{rx} B{ry} C{rz} F{self.speed}"\<close>, \<open>M3 s\<close> for
  \<^verbatim>\<open>f"M3 S{s}"\<close> and \<open>M112\<close> for the emergency stop.
\<close>

datatype command = G0 real real real real real real real | M3 real | M112

text \<open>What reaches the serial connection: the encoded command, then the newline byte.\<close>

datatype serial_write = Bytes command | Newline

text \<open>
  \<^verbatim>\<open>send_command\<close> makes two writes inside one \<^verbatim>\<open>try\<close>; either may raise, and the
  handler turns the exception into \<^verbatim>\<open>False\<close>.
\<close>

datatype write_fault = NoFault | FaultOnCommand | FaultOnNewline

text \<open>The exceptions that can cross a function boundary in the modelled code.\<close>

datatype exn =
  KeyError | TypeError | IntegrityError | ZeroDivisionError | LibraryError | EOFError

text \<open>
  Library calls whose exceptions the modelled code does not catch where it makes the call.
\<close>

datatype ext_call =
    SaveImage | ExtractRoi | Preprocess | InsertCard | GetStatistics
  | CameraRelease | SerialClose | DbClose

datatype key = Enter | CtrlC | EndOfInput

text \<open>
  Everything outside the program is an oracle indexed by the number of earlier calls of the
  same kind: the faults of the serial line, whether the devices open, whether the camera
  delivers a frame, what the OCR engine reads, whether a library call raises, and what the
  operator types at the prompt.
\<close>

record env =
  serial_fault :: "nat \<Rightarrow> write_fault"
  serial_opens :: bool
  camera_opens :: bool
  frames :: "nat \<Rightarrow> bool"
  ocr_results :: "nat \<Rightarrow> string option \<times> real"
  raises :: "ext_call \<Rightarrow> nat \<Rightarrow> bool"
  keyboard :: "nat \<Rightarrow> key"

text \<open>
  The fields of \<^verbatim>\<open>RobotArm\<close> that the modelled methods read or write.
  \<open>safety_workspace_limits\<close> is \<^verbatim>\<open>safety_config.get('workspace_limits')\<close>, \<open>None\<close>
  when the key is absent. \<open>send_calls\<close> and \<open>serial_out\<close> are the observable history:
  the commands \<^verbatim>\<open>send_command\<close> was invoked with, and what was written to the
  serial connection. The fixed \<^verbatim>\<open>time.sleep\<close> delays of the arm are not modelled.
\<close>

record robot_arm =
  simulation_mode :: bool
  is_connected :: bool
  serial_open :: bool
  positions :: "(string \<times> (string \<times> real) list) list"
  safety_workspace_limits :: "(string \<times> real) list option"
  speed :: real
  gripper_open_value :: real
  gripper_close_value :: real
  current_position :: "position option"
  send_calls :: "command list"
  serial_out :: "serial_write list"

definition dict_get :: "(string \<times> 'a) list \<Rightarrow> string \<Rightarrow> 'a \<Rightarrow> 'a" where
  "dict_get d k dflt = (case map_of d k of None \<Rightarrow> dflt | Some v \<Rightarrow> v)"


definition send_command :: "env \<Rightarrow> robot_arm \<Rightarrow> command \<Rightarrow> bool \<times> robot_arm" where
  "send_command e r c =
     (let r1 = r\<lparr>send_calls := send_calls r @ [c]\<rparr> in
      if simulation_mode r then (True, r1)
      else if \<not> is_connected r then (False, r1)
      else (case serial_fault e (length (send_calls r)) of
              NoFault \<Rightarrow> (True, r1\<lparr>serial_out := serial_out r @ [Bytes c, Newline]\<rparr>)
            | FaultOnCommand \<Rightarrow> (False, r1)
            | FaultOnNewline \<Rightarrow> (False, r1\<lparr>serial_out := serial_out r @ [Bytes c]\<rparr>)))"

text \<open>\<^verbatim>\<open>self.safety_config.get('workspace_limits', {})\<close>\<close>

definition workspace_limits :: "robot_arm \<Rightarrow> (string \<times> real) list" where
  "workspace_limits r = (case safety_workspace_limits r of None \<Rightarrow> [] | Some l \<Rightarrow> l)"

definition check_workspace_limits :: "robot_arm \<Rightarrow> real \<Rightarrow> real \<Rightarrow> real \<Rightarrow> bool" where
  "check_workspace_limits r x y z =
     (let limits = workspace_limits r;
          x_min = dict_get limits ''x_min'' (- 300);
          x_max = dict_get limits ''x_max'' 300;
          y_min = dict_get limits ''y_min'' (- 200);
          y_max = dict_get limits ''y_max'' 200;
          z_min = dict_get limits ''z_min'' 0;
          z_max = dict_get limits ''z_max'' 300
      in if \<not> (x_min \<le> x \<and> x \<le> x_max) then False
         else if \<not> (y_min \<le> y \<and> y \<le> y_max) then False
         else if \<not> (z_min \<le> z \<and> z \<le> z_max) then False
         else True)"

definition move_to_coordinates ::
  "env \<Rightarrow> robot_arm \<Rightarrow> real \<Rightarrow> real \<Rightarrow> real \<Rightarrow> real \<Rightarrow> real \<Rightarrow> real \<Rightarrow> bool \<Rightarrow> bool \<times> robot_arm" where
  "move_to_coordinates e r x y z rx ry rz wait =
     (if \<not> check_workspace_limits r x y z then (False, r)
      else send_command e r (G0 x y z rx ry rz (speed r)))"

text \<open>
  \<^verbatim>\<open>pos_config['x']\<close> raises \<^verbatim>\<open>KeyError\<close> when a configured position lacks a
  coordinate; \<^verbatim>\<open>if not pos_config\<close> covers both a missing entry and an empty one.
\<close>

definition move_to_position ::
  "env \<Rightarrow> robot_arm \<Rightarrow> position \<Rightarrow> bool \<Rightarrow> (exn + bool) \<times> robot_arm" where
  "move_to_position e r p wait =
     (case map_of (positions r) (position_value p) of
        None \<Rightarrow> (Inr False, r)
      | Some pos_config \<Rightarrow>
          if pos_config = [] then (Inr False, r)
          else (case map_of pos_config ''x'' of
                  None \<Rightarrow> (Inl KeyError, r)
                | Some x \<Rightarrow>
               (case map_of pos_config ''y'' of
                  None \<Rightarrow> (Inl KeyError, r)
                | Some y \<Rightarrow>
               (case map_of pos_config ''z'' of
                  None \<Rightarrow> (Inl KeyError, r)
                | Some z \<Rightarrow>
                  (case move_to_coordinates e r x y z
                          (dict_get pos_config ''rx'' 0) (dict_get pos_config ''ry'' 0)
                          (dict_get pos_config ''rz'' 0) wait of
                     (ok, r') \<Rightarrow> (Inr ok, r'))))))"

definition open_gripper :: "env \<Rightarrow> robot_arm \<Rightarrow> bool \<times> robot_arm" where
  "open_gripper e r = send_command e r (M3 (gripper_open_value r))"

definition close_gripper :: "env \<Rightarrow> robot_arm \<Rightarrow> bool \<times> robot_arm" where
  "close_gripper e r = send_command e r (M3 (gripper_close_value r))"

definition pick_card :: "env \<Rightarrow> robot_arm \<Rightarrow> (exn + bool) \<times> robot_arm" where
  "pick_card e r =
     (case move_to_position e r CARD_PILE True of
        (Inl x, r1) \<Rightarrow> (Inl x, r1)
      | (Inr False, r1) \<Rightarrow> (Inr False, r1)
      | (Inr True, r1) \<Rightarrow>
          (case open_gripper e r1 of
             (False, r2) \<Rightarrow> (Inr False, r2)
           | (True, r2) \<Rightarrow>
               (case close_gripper e r2 of
                  (False, r3) \<Rightarrow> (Inr False, r3)
                | (True, r3) \<Rightarrow> (Inr True, r3))))"

definition place_card :: "env \<Rightarrow> robot_arm \<Rightarrow> bool \<Rightarrow> (exn + bool) \<times> robot_arm" where
  "place_card e r success =
     (let position = (if success then SUCCESS else FAILED) in
      case move_to_position e r position True of
        (Inl x, r1) \<Rightarrow> (Inl x, r1)
      | (Inr False, r1) \<Rightarrow> (Inr False, r1)
      | (Inr True, r1) \<Rightarrow>
          (case open_gripper e r1 of
             (False, r2) \<Rightarrow> (Inr False, r2)
           | (True, r2) \<Rightarrow> (Inr True, r2)))"

definition move_to_scan_position :: "env \<Rightarrow> robot_arm \<Rightarrow> (exn + bool) \<times> robot_arm" where
  "move_to_scan_position e r = move_to_position e r SCAN True"

definition home :: "env \<Rightarrow> robot_arm \<Rightarrow> (exn + bool) \<times> robot_arm" where
  "home e r =
     (case move_to_position e r HOME True of
        (Inr True, r1) \<Rightarrow> (Inr True, r1\<lparr>current_position := Some HOME\<rparr>)
      | (res, r1) \<Rightarrow> (res, r1))"

section \<open>The recognition gate (modules/ocr\_recognition.py)\<close>

text \<open>
  \<open>card_number_pattern\<close> is \<^verbatim>\<open>re.match(self.card_number_pattern, text)\<close> for the
  configured pattern, as a predicate on the text.
\<close>

record ocr_recognizer =
  confidence_threshold :: real
  card_number_pattern :: "string \<Rightarrow> bool"
  max_retry :: int

text \<open>
  The default pattern \<^verbatim>\<open>^[A-Z0-9\-]{5,15}$\<close>. In Python \<^verbatim>\<open>$\<close> also matches just
  before a final newline.
\<close>

definition default_card_number_pattern :: "string \<Rightarrow> bool" where
  "default_card_number_pattern t =
     (let s = (if t \<noteq> [] \<and> last t = CHR 0x0A then butlast t else t)
      in 5 \<le> length s \<and> length s \<le> 15
         \<and> list_all (\<lambda>c. c \<in> set ''ABCDEFGHIJKLMNOPQRSTUVWXYZ0123456789-'') s)"

definition validate_card_number :: "ocr_recognizer \<Rightarrow> string option \<Rightarrow> bool" where
  "validate_card_number ocr text =
     (case text of
        None \<Rightarrow> False
      | Some t \<Rightarrow> if t = [] then False else card_number_pattern ocr t)"

text \<open>
  The \<^verbatim>\<open>for attempt in range(attempts)\<close> loop of \<^verbatim>\<open>recognize_card_number\<close>.
  \<open>results i\<close> is what the \<open>i\<close>-th call of \<^verbatim>\<open>self.recognize(image)\<close> returns. The
  result is the returned triple together with the number of calls of
  \<^verbatim>\<open>recognize\<close> that were made.
\<close>

function recognize_loop ::
  "ocr_recognizer \<Rightarrow> (nat \<Rightarrow> string option \<times> real) \<Rightarrow> int \<Rightarrow> nat
     \<Rightarrow> (string option \<times> real \<times> bool) \<times> nat" where
  "recognize_loop ocr results attempts attempt =
     (if int attempt < attempts then
        (let text = fst (results attempt); confidence = snd (results attempt) in
         if confidence < confidence_threshold ocr then
           (if int attempt < attempts - 1
            then recognize_loop ocr results attempts (Suc attempt)
            else ((text, confidence, False), Suc attempt))
         else if \<not> validate_card_number ocr text then
           (if int attempt < attempts - 1
            then recognize_loop ocr results attempts (Suc attempt)
            else ((text, confidence, False), Suc attempt))
         else ((text, confidence, True), Suc attempt))
      else ((None, 0, False), attempt))"
  by pat_completeness auto
termination
  by (relation "measure (\<lambda>(ocr, results, attempts, attempt). nat (attempts - int attempt))") auto

declare recognize_loop.simps [simp del]

definition recognize_card_number ::
  "ocr_recognizer \<Rightarrow> (nat \<Rightarrow> string option \<times> real) \<Rightarrow> bool
     \<Rightarrow> (string option \<times> real \<times> bool) \<times> nat" where
  "recognize_card_number ocr results retry =
     recognize_loop ocr results (if retry then max_retry ocr else 1) 0"

section \<open>The card store (modules/database.py)\<close>

text \<open>
  A row of the \<^verbatim>\<open>cards\<close> table: card number, confidence and status. The image paths
  and the scan time come from the clock and are left out. The column
  \<^verbatim>\<open>card_number TEXT NOT NULL\<close> makes the \<^verbatim>\<open>INSERT\<close> raise
  \<^verbatim>\<open>sqlite3.IntegrityError\<close> when the card number is \<^verbatim>\<open>None\<close>.
\<close>

type_synonym db_row = "string \<times> real \<times> string"

definition insert_card ::
  "bool \<Rightarrow> db_row list \<Rightarrow> string option \<Rightarrow> real \<Rightarrow> string \<Rightarrow> exn + db_row list" where
  "insert_card lib_raises rows card_number confidence status =
     (if lib_raises then Inl LibraryError
      else case card_number of
             None \<Rightarrow> Inl IntegrityError
           | Some n \<Rightarrow> Inr (rows @ [(n, confidence, status)]))"

section \<open>The controller (main.py)\<close>

datatype event =
    Slept real | Prompted | StatisticsPrinted
  | CleanupStarted | CameraClosed | RobotDisconnected | DatabaseClosed

text \<open>
  The state of \<^verbatim>\<open>CardSortingRobot\<close> and of its collaborators. \<open>n_capture\<close>,
  \<open>n_recognize\<close>, \<open>n_ext\<close> and \<open>n_input\<close> count the calls made so far to the camera,
  the OCR engine, the libraries and the prompt; \<open>events\<close> is the observable history of
  pauses, prompts, statistics and shutdown steps. Of the pauses only the cooldown of the
  run loop is recorded (\<open>Slept 2\<close>); the settle delay before the capture is not modelled.
\<close>

record world =
  robot :: robot_arm
  ocr :: ocr_recognizer
  total_processed :: nat
  success_count :: nat
  failed_count :: nat
  start_time_set :: bool
  max_cards :: int
  auto_resume :: bool
  stop_on_error :: bool
  stats_interval :: int
  save_original :: bool
  save_processed :: bool
  camera_cap :: bool
  camera_is_opened :: bool
  db_rows :: "db_row list"
  db_open :: bool
  n_capture :: nat
  n_recognize :: nat
  n_ext :: nat
  n_input :: nat
  events :: "event list"

definition emit :: "event \<Rightarrow> world \<Rightarrow> world" where
  "emit ev w = w\<lparr>events := events w @ [ev]\<rparr>"

definition on_robot :: "(robot_arm \<Rightarrow> 'a \<times> robot_arm) \<Rightarrow> world \<Rightarrow> 'a \<times> world" where
  "on_robot f w = (case f (robot w) of (x, r) \<Rightarrow> (x, w\<lparr>robot := r\<rparr>))"

text \<open>One library call: whether it raises, and the call counted.\<close>

definition ext :: "env \<Rightarrow> ext_call \<Rightarrow> world \<Rightarrow> bool \<times> world" where
  "ext e c w = (raises e c (n_ext w), w\<lparr>n_ext := Suc (n_ext w)\<rparr>)"

text \<open>Library calls made one after the other; the first that raises ends the sequence.\<close>

fun lib_calls :: "env \<Rightarrow> ext_call list \<Rightarrow> world \<Rightarrow> bool \<times> world" where
  "lib_calls e [] w = (False, w)"
| "lib_calls e (c # cs) w =
     (case ext e c w of
        (True, w1) \<Rightarrow> (True, w1)
      | (False, w1) \<Rightarrow> lib_calls e cs w1)"

text \<open>
  \<^verbatim>\<open>print_statistics\<close>: the elapsed time needs \<^verbatim>\<open>start_time\<close>, the percentages
  divide by \<^verbatim>\<open>total_processed\<close>, and the store is queried last.
\<close>

definition print_statistics :: "env \<Rightarrow> world \<Rightarrow> (exn + unit) \<times> world" where
  "print_statistics e w =
     (if \<not> start_time_set w then (Inl TypeError, w)
      else if total_processed w = 0 then (Inl ZeroDivisionError, w)
      else (case ext e GetStatistics w of
              (True, w1) \<Rightarrow> (Inl LibraryError, w1)
            | (False, w1) \<Rightarrow> (Inr (), emit StatisticsPrinted w1)))"

text \<open>
  How a call of \<^verbatim>\<open>process_single_card\<close> ends: \<open>Completed\<close> is \<^verbatim>\<open>return True\<close>; the
  five failures are the \<^verbatim>\<open>return False\<close> statements, told apart by the message each
  logs; \<open>Crashed\<close> is the \<^verbatim>\<open>except Exception\<close> handler.
\<close>

datatype cycle_end =
    Completed | PickFailed | ScanFailed | CaptureFailed | PlaceFailed | HomeFailed
  | Crashed exn

text \<open>
  The body of \<^verbatim>\<open>process_single_card\<close> is given in four parts, last part first.
  Lines 222 to 228: count the card and print the statistics when due.
\<close>

definition finish_cycle :: "env \<Rightarrow> world \<Rightarrow> cycle_end \<times> world" where
  "finish_cycle e w =
     (let w1 = w\<lparr>total_processed := total_processed w + 1\<rparr> in
      if stats_interval w1 = 0 then (Crashed ZeroDivisionError, w1)
      else if int (total_processed w1) mod stats_interval w1 = 0 then
        (case print_statistics e w1 of
           (Inl x, w2) \<Rightarrow> (Crashed x, w2)
         | (Inr u, w2) \<Rightarrow> (Completed, w2))
      else (Completed, w1))"

text \<open>Steps 8 and 9: place the card, return home.\<close>

definition deliver_card :: "env \<Rightarrow> world \<Rightarrow> bool \<Rightarrow> cycle_end \<times> world" where
  "deliver_card e w recognition_success =
     (case on_robot (\<lambda>r. place_card e r recognition_success) w of
        (Inl x, w1) \<Rightarrow> (Crashed x, w1)
      | (Inr False, w1) \<Rightarrow> (PlaceFailed, w1)
      | (Inr True, w1) \<Rightarrow>
          (case on_robot (home e) w1 of
             (Inl x, w2) \<Rightarrow> (Crashed x, w2)
           | (Inr False, w2) \<Rightarrow> (HomeFailed, w2)
           | (Inr True, w2) \<Rightarrow> finish_cycle e w2))"

text \<open>Steps 6 and 7: count the recognition result and store it.\<close>

definition record_result ::
  "env \<Rightarrow> world \<Rightarrow> string option \<times> real \<times> bool \<Rightarrow> cycle_end \<times> world" where
  "record_result e w res =
     (case res of (card_number, confidence, recognition_success) \<Rightarrow>
        (let status = (if recognition_success then ''success'' else ''failed'');
             w1 = (if recognition_success
                   then w\<lparr>success_count := success_count w + 1\<rparr>
                   else w\<lparr>failed_count := failed_count w + 1\<rparr>)
         in case ext e InsertCard w1 of
              (lib_raises, w2) \<Rightarrow>
                (case insert_card lib_raises (db_rows w2) card_number confidence status of
                   Inl x \<Rightarrow> (Crashed x, w2)
                 | Inr rows \<Rightarrow> deliver_card e (w2\<lparr>db_rows := rows\<rparr>) recognition_success)))"

text \<open>
  Steps 3 (after the frame is there) to 5: save the frame, cut the region, preprocess,
  save again, recognise with retries.
\<close>

definition recognise_frame :: "env \<Rightarrow> world \<Rightarrow> cycle_end \<times> world" where
  "recognise_frame e w =
     (case lib_calls e ((if save_original w then [SaveImage] else [])
                         @ [ExtractRoi, Preprocess]
                         @ (if save_processed w then [SaveImage] else [])) w of
        (True, w1) \<Rightarrow> (Crashed LibraryError, w1)
      | (False, w1) \<Rightarrow>
          (case recognize_card_number (ocr w1)
                  (\<lambda>i. ocr_results e (n_recognize w1 + i)) True of
             (res, n) \<Rightarrow> record_result e (w1\<lparr>n_recognize := n_recognize w1 + n\<rparr>) res))"

text \<open>Steps 1 to 3: pick the card, present it to the camera, capture a frame.\<close>

definition process_card_steps :: "env \<Rightarrow> world \<Rightarrow> cycle_end \<times> world" where
  "process_card_steps e w =
     (case on_robot (pick_card e) w of
        (Inl x, w1) \<Rightarrow> (Crashed x, w1)
      | (Inr False, w1) \<Rightarrow> (PickFailed, w1)
      | (Inr True, w1) \<Rightarrow>
          (case on_robot (move_to_scan_position e) w1 of
             (Inl x, w2) \<Rightarrow> (Crashed x, w2)
           | (Inr False, w2) \<Rightarrow> (ScanFailed, w2)
           | (Inr True, w2) \<Rightarrow>
               (let w3 = w2\<lparr>n_capture := Suc (n_capture w2)\<rparr> in
                if \<not> frames e (n_capture w2) then (CaptureFailed, w3)
                else recognise_frame e w3)))"

definition process_single_card :: "env \<Rightarrow> world \<Rightarrow> bool \<times> world" where
  "process_single_card e w =
     (case process_card_steps e w of (c, w1) \<Rightarrow> (c = Completed, w1))"








text \<open>
  One pass through the body of \<^verbatim>\<open>while True\<close> in \<^verbatim>\<open>run\<close>, and how it leaves:
  on to the next pass, \<^verbatim>\<open>break\<close>, a \<^verbatim>\<open>KeyboardInterrupt\<close> (raised here only at the
  prompt), or another exception on its way out of the loop.
\<close>

datatype loop_ctl = Continue | Break | Interrupt | Escape exn

definition run_iteration :: "env \<Rightarrow> world \<Rightarrow> loop_ctl \<times> world" where
  "run_iteration e w =
     (if max_cards w > 0 \<and> int (total_processed w) \<ge> max_cards w then (Break, w)
      else (case process_single_card e w of
              (True, w1) \<Rightarrow> (Continue, w1)
            | (False, w1) \<Rightarrow>
                if stop_on_error w1 then (Break, w1)
                else if auto_resume w1 then (Continue, emit (Slept 2) w1)
                else (let w2 = (emit Prompted w1)\<lparr>n_input := Suc (n_input w1)\<rparr> in
                      case keyboard e (n_input w1) of
                        Enter \<Rightarrow> (Continue, w2)
                      | CtrlC \<Rightarrow> (Interrupt, w2)
                      | EndOfInput \<Rightarrow> (Escape EOFError, w2))))"

text \<open>
  The loop may run forever (\<^verbatim>\<open>max_cards = 0\<close>), so it takes fuel, one unit for each
  pass; \<open>None\<close> is a loop that is still running when the fuel is spent.
\<close>

fun run_loop :: "nat \<Rightarrow> env \<Rightarrow> world \<Rightarrow> (loop_ctl \<times> world) option" where
  "run_loop 0 e w = None"
| "run_loop (Suc n) e w =
     (case run_iteration e w of
        (Continue, w1) \<Rightarrow> run_loop n e w1
      | (c, w1) \<Rightarrow> Some (c, w1))"



section \<open>A concrete installation\<close>

text \<open>
  The positions of the self-test at the end of robot\_arm.py, the defaults of the
  constructors, an arm in simulation mode, and surroundings in which nothing goes wrong:
  every frame is captured and read as \<^verbatim>\<open>ABC-123\<close> with confidence 0.75.
\<close>

definition demo_positions :: "(string \<times> (string \<times> real) list) list" where
  "demo_positions =
     [(''home'', [(''x'', 0), (''y'', 150), (''z'', 200), (''rx'', 0), (''ry'', 0), (''rz'', 0)]),
      (''card_pile'', [(''x'', 200), (''y'', 0), (''z'', 50), (''rx'', 0), (''ry'', 90), (''rz'', 0)]),
      (''scan_position'', [(''x'', 0), (''y'', - 150), (''z'', 80), (''rx'', 0), (''ry'', 0), (''rz'', 0)]),
      (''success_pile'', [(''x'', - 200), (''y'', 0), (''z'', 50), (''rx'', 0), (''ry'', 90), (''rz'', 0)]),
      (''failed_pile'', [(''x'', - 200), (''y'', 100), (''z'', 50), (''rx'', 0), (''ry'', 90), (''rz'', 0)])]"

definition demo_limits :: "(string \<times> real) list" where
  "demo_limits =
     [(''x_min'', - 300), (''x_max'', 300), (''y_min'', - 200), (''y_max'', 200),
      (''z_min'', 0), (''z_max'', 300)]"

definition demo_robot :: robot_arm where
  "demo_robot =
     \<lparr>simulation_mode = True, is_connected = False, serial_open = False,
      positions = demo_positions, safety_workspace_limits = None, speed = 50,
      gripper_open_value = 100, gripper_close_value = 0, current_position = None,
      send_calls = [], serial_out = []\<rparr>"

definition demo_ocr :: ocr_recognizer where
  "demo_ocr =
     \<lparr>confidence_threshold = 0.6, card_number_pattern = default_card_number_pattern,
      max_retry = 3\<rparr>"

definition demo_world :: world where
  "demo_world =
     \<lparr>robot = demo_robot, ocr = demo_ocr, total_processed = 0, success_count = 0,
      failed_count = 0, start_time_set = False, max_cards = 0, auto_resume = True,
      stop_on_error = False, stats_interval = 10, save_original = True,
      save_processed = True, camera_cap = False, camera_is_opened = False, db_rows = [],
      db_open = True, n_capture = 0, n_recognize = 0, n_ext = 0, n_input = 0,
      events = []\<rparr>"

definition demo_env :: env where
  "demo_env =
     \<lparr>serial_fault = (\<lambda>n. NoFault), serial_opens = True, camera_opens = True,
      frames = (\<lambda>n. True), ocr_results = (\<lambda>n. (Some ''ABC-123'', 0.75)),
      raises = (\<lambda>c n. False), keyboard = (\<lambda>n. Enter)\<rparr>"

text \<open>The same arm on a real serial line, connected.\<close>

definition wired_robot :: robot_arm where
  "wired_robot = demo_robot\<lparr>simulation_mode := False, is_connected := True, serial_open := True\<rparr>"

text \<open>A blank card: the OCR engine finds no text, so every attempt is \<^verbatim>\<open>(None, 0.0)\<close>.\<close>

definition blank_card_env :: env where
  "blank_card_env = demo_env\<lparr>ocr_results := (\<lambda>n. (None, 0))\<rparr>"

text \<open>A smudged card: a text is read, but with confidence 0.2 on every attempt.\<close>

definition smudged_card_env :: env where
  "smudged_card_env = demo_env\<lparr>ocr_results := (\<lambda>n. (Some ''SMUDGE'', 0.2))\<rparr>"


definition no_card_pile_world :: world where
  "no_card_pile_world =
     demo_world\<lparr>robot := demo_robot\<lparr>positions := filter (\<lambda>p. fst p \<noteq> ''card_pile'') demo_positions\<rparr>\<rparr>"




text \<open>An operator who presses Enter at the first prompt and Ctrl-C at the second.\<close>

definition operator_env :: env where
  "operator_env = demo_env\<lparr>keyboard := (\<lambda>n. if n = 0 then Enter else CtrlC)\<rparr>"



section \<open>What a cycle leaves unchanged\<close>

text \<open>
  \<open>cleanups\<close> counts how often the shutdown sequence was entered. \<open>same_policy\<close> relates
  two states with the same run policy and the same number of shutdowns; \<open>same_tally\<close>
  two states with the same counters and the same stored rows. \<open>shutdown_steps\<close> is the
  history that a shutdown leaves behind when none of its steps raises.
\<close>

definition cleanups :: "world \<Rightarrow> nat" where
  "cleanups w = length (filter (\<lambda>v. v = CleanupStarted) (events w))"

definition same_policy :: "world \<Rightarrow> world \<Rightarrow> bool" where
  "same_policy w w' \<longleftrightarrow>
     max_cards w' = max_cards w \<and> auto_resume w' = auto_resume w
   \<and> stop_on_error w' = stop_on_error w \<and> stats_interval w' = stats_interval w
   \<and> start_time_set w' = start_time_set w \<and> cleanups w' = cleanups w"

definition same_tally :: "world \<Rightarrow> world \<Rightarrow> bool" where
  "same_tally w w' \<longleftrightarrow>
     total_processed w' = total_processed w \<and> success_count w' = success_count w
   \<and> failed_count w' = failed_count w \<and> db_rows w' = db_rows w"



lemma same_policy_refl [simp]: "same_policy w w"
  by (simp add: same_policy_def)

lemma same_policy_trans: "same_policy a b \<Longrightarrow> same_policy b c \<Longrightarrow> same_policy a c"
  by (simp add: same_policy_def)

lemma on_robot_policy: "on_robot f w = (x, w') \<Longrightarrow> same_policy w w' \<and> same_tally w w'"
  by (cases "f (robot w)") (auto simp: on_robot_def same_policy_def same_tally_def cleanups_def)

lemma ext_policy: "ext e c w = (b, w') \<Longrightarrow> same_policy w w' \<and> same_tally w w'"
  by (auto simp: ext_def same_policy_def same_tally_def cleanups_def)

lemma lib_calls_policy: "lib_calls e cs w = (b, w') \<Longrightarrow> same_policy w w' \<and> same_tally w w'"
proof (induction cs arbitrary: w)
  case Nil
  then show ?case by (simp add: same_tally_def)
next
  case (Cons c cs)
  obtain b1 w1 where x: "ext e c w = (b1, w1)" by (cases "ext e c w")
  show ?case
  proof (cases b1)
    case True
    with Cons.prems x ext_policy[OF x] show ?thesis by simp
  next
    case False
    with Cons.prems x have "lib_calls e cs w1 = (b, w')" by simp
    from Cons.IH[OF this] ext_policy[OF x] show ?thesis
      by (auto simp: same_policy_def same_tally_def)
  qed
qed

lemma print_statistics_policy:
  "print_statistics e w = (res, w') \<Longrightarrow> same_policy w w' \<and> same_tally w w'"
  by (auto simp: print_statistics_def ext_def emit_def same_policy_def same_tally_def cleanups_def
           split: if_splits bool.splits)

lemma finish_cycle_facts:
  assumes "finish_cycle e w = (c, w')"
  shows "same_policy w w'"
    and "c = Completed \<or> (\<exists>x. c = Crashed x)"
    and "total_processed w' = Suc (total_processed w)"
    and "success_count w' = success_count w \<and> failed_count w' = failed_count w \<and> db_rows w' = db_rows w"
  using assms
  by (auto simp: finish_cycle_def Let_def same_policy_def same_tally_def cleanups_def
           split: if_splits prod.splits sum.splits dest!: print_statistics_policy)

lemma deliver_card_facts:
  assumes "deliver_card e w ok = (c, w')"
  shows "same_policy w w'"
    and "c \<noteq> PickFailed \<and> c \<noteq> ScanFailed \<and> c \<noteq> CaptureFailed"
    and "success_count w' = success_count w \<and> failed_count w' = failed_count w \<and> db_rows w' = db_rows w"
    and "c = PlaceFailed \<or> c = HomeFailed \<Longrightarrow> total_processed w' = total_processed w"
proof -
  obtain p w1 where p: "on_robot (\<lambda>r. place_card e r ok) w = (p, w1)"
    by (cases "on_robot (\<lambda>r. place_card e r ok) w")
  obtain h w2 where h: "on_robot (home e) w1 = (h, w2)"
    by (cases "on_robot (home e) w1")
  obtain c3 w3 where f: "finish_cycle e w2 = (c3, w3)"
    by (cases "finish_cycle e w2")
  note P = on_robot_policy[OF p] and H = on_robot_policy[OF h] and F = finish_cycle_facts[OF f]
  have all: "same_policy w w' \<and> (c \<noteq> PickFailed \<and> c \<noteq> ScanFailed \<and> c \<noteq> CaptureFailed)
     \<and> (success_count w' = success_count w \<and> failed_count w' = failed_count w \<and> db_rows w' = db_rows w)
     \<and> (c = PlaceFailed \<or> c = HomeFailed \<longrightarrow> total_processed w' = total_processed w)"
    using assms p h f P H F
    by (auto simp: deliver_card_def same_policy_def same_tally_def
             split: sum.splits bool.splits)
  from all show "same_policy w w'" by simp
  from all show "c \<noteq> PickFailed \<and> c \<noteq> ScanFailed \<and> c \<noteq> CaptureFailed" by simp
  from all show "success_count w' = success_count w \<and> failed_count w' = failed_count w \<and> db_rows w' = db_rows w" by simp
  from all show "c = PlaceFailed \<or> c = HomeFailed \<Longrightarrow> total_processed w' = total_processed w" by simp
qed

lemma record_result_facts:
  assumes "record_result e w res = (c, w')"
  shows "same_policy w w'"
    and "c \<noteq> PickFailed \<and> c \<noteq> ScanFailed \<and> c \<noteq> CaptureFailed"
    and "c = PlaceFailed \<or> c = HomeFailed \<Longrightarrow>
           total_processed w' = total_processed w
         \<and> success_count w' + failed_count w' = success_count w + failed_count w + 1
         \<and> length (db_rows w') = length (db_rows w) + 1"
proof -
  obtain card_number confidence ok where res: "res = (card_number, confidence, ok)"
    by (cases res)
  define w1 where "w1 = (if ok then w\<lparr>success_count := success_count w + 1\<rparr>
                         else w\<lparr>failed_count := failed_count w + 1\<rparr>)"
  obtain b w2 where x: "ext e InsertCard w1 = (b, w2)"
    by (cases "ext e InsertCard w1")
  note X = ext_policy[OF x]
  have w1: "same_policy w w1" "total_processed w1 = total_processed w" "db_rows w1 = db_rows w"
     "success_count w1 + failed_count w1 = success_count w + failed_count w + 1"
    by (auto simp: w1_def same_policy_def cleanups_def)
  show "same_policy w w'" 
  proof (cases "insert_card b (db_rows w2) card_number confidence (if ok then ''success'' else ''failed'')")
    case (Inl x1)
    with assms res x X w1 show ?thesis  
      by (auto simp: record_result_def Let_def w1_def[symmetric] same_policy_def)
  next
    case (Inr rows)
    with assms res x have d: "deliver_card e (w2\<lparr>db_rows := rows\<rparr>) ok = (c, w')"
      by (auto simp: record_result_def Let_def w1_def[symmetric])
    from deliver_card_facts(1)[OF d] X w1 show ?thesis 
      by (auto simp: same_policy_def cleanups_def)
  qed
  show "c \<noteq> PickFailed \<and> c \<noteq> ScanFailed \<and> c \<noteq> CaptureFailed"
  proof (cases "insert_card b (db_rows w2) card_number confidence (if ok then ''success'' else ''failed'')")
    case (Inl x1)
    with assms res x show ?thesis  
      by (auto simp: record_result_def Let_def w1_def[symmetric])
  next
    case (Inr rows)
    with assms res x have d: "deliver_card e (w2\<lparr>db_rows := rows\<rparr>) ok = (c, w')"
      by (auto simp: record_result_def Let_def w1_def[symmetric])
    from deliver_card_facts(2)[OF d] show ?thesis .
  qed
  show "total_processed w' = total_processed w
         \<and> success_count w' + failed_count w' = success_count w + failed_count w + 1
         \<and> length (db_rows w') = length (db_rows w) + 1" if pf: "c = PlaceFailed \<or> c = HomeFailed"
  proof (cases "insert_card b (db_rows w2) card_number confidence (if ok then ''success'' else ''failed'')")
    case (Inl x1)
    with assms res x pf show ?thesis  
      by (auto simp: record_result_def Let_def w1_def[symmetric])
  next
    case (Inr rows)
    with assms res x have d: "deliver_card e (w2\<lparr>db_rows := rows\<rparr>) ok = (c, w')"
      by (auto simp: record_result_def Let_def w1_def[symmetric])
    from Inr have len: "length rows = length (db_rows w2) + 1"
      by (auto simp: insert_card_def split: if_splits option.splits)
    from deliver_card_facts(3)[OF d] deliver_card_facts(4)[OF d pf] X w1 len show ?thesis
      by (auto simp: same_tally_def)
  qed
qed


lemma recognise_frame_facts:
  assumes "recognise_frame e w = (c, w')"
  shows "same_policy w w'"
    and "c \<noteq> PickFailed \<and> c \<noteq> ScanFailed \<and> c \<noteq> CaptureFailed"
    and "c = PlaceFailed \<or> c = HomeFailed \<Longrightarrow>
           total_processed w' = total_processed w
         \<and> success_count w' + failed_count w' = success_count w + failed_count w + 1
         \<and> length (db_rows w') = length (db_rows w) + 1"
proof -
  define cs where "cs = (if save_original w then [SaveImage] else [])
                         @ [ExtractRoi, Preprocess]
                         @ (if save_processed w then [SaveImage] else [])"
  have rf: "recognise_frame e w =
     (case lib_calls e cs w of
        (True, w1) \<Rightarrow> (Crashed LibraryError, w1)
      | (False, w1) \<Rightarrow>
          (case recognize_card_number (ocr w1)
                  (\<lambda>i. ocr_results e (n_recognize w1 + i)) True of
             (res, n) \<Rightarrow> record_result e (w1\<lparr>n_recognize := n_recognize w1 + n\<rparr>) res))"
    by (simp only: recognise_frame_def cs_def)
  obtain b w1 where l: "lib_calls e cs w = (b, w1)"
    by (cases "lib_calls e cs w")
  note L = lib_calls_policy[OF l]
  obtain res n where r: "recognize_card_number (ocr w1)
                  (\<lambda>i. ocr_results e (n_recognize w1 + i)) True = (res, n)"
    by (cases "recognize_card_number (ocr w1) (\<lambda>i. ocr_results e (n_recognize w1 + i)) True")
  define w2 where "w2 = w1\<lparr>n_recognize := n_recognize w1 + n\<rparr>"
  have w2: "same_policy w1 w2" "same_tally w1 w2"
    by (auto simp: w2_def same_policy_def same_tally_def cleanups_def)
  show "same_policy w w'"
  proof (cases b)
    case True
    with assms l L show ?thesis by (simp add: rf)
  next
    case False
    with assms l r have "record_result e w2 res = (c, w')"
      by (simp add: rf w2_def)
    from record_result_facts(1)[OF this] L w2 show ?thesis
      by (blast intro: same_policy_trans)
  qed
  show "c \<noteq> PickFailed \<and> c \<noteq> ScanFailed \<and> c \<noteq> CaptureFailed"
  proof (cases b)
    case True
    with assms l show ?thesis by (auto simp add: rf)
  next
    case False
    with assms l r have "record_result e w2 res = (c, w')"
      by (simp add: rf w2_def)
    from record_result_facts(2)[OF this] show ?thesis .
  qed
  show "total_processed w' = total_processed w
         \<and> success_count w' + failed_count w' = success_count w + failed_count w + 1
         \<and> length (db_rows w') = length (db_rows w) + 1" if pf: "c = PlaceFailed \<or> c = HomeFailed"
  proof (cases b)
    case True
    with assms l pf show ?thesis by (auto simp add: rf)
  next
    case False
    with assms l r have "record_result e w2 res = (c, w')"
      by (simp add: rf w2_def)
    from record_result_facts(3)[OF this pf] L w2 show ?thesis
      by (simp add: same_tally_def)
  qed
qed

lemma process_card_steps_facts:
  assumes "process_card_steps e w = (c, w')"
  shows "same_policy w w'"
    and "c = PickFailed \<or> c = ScanFailed \<or> c = CaptureFailed \<Longrightarrow> same_tally w w'"
    and "c = PlaceFailed \<or> c = HomeFailed \<Longrightarrow>
           total_processed w' = total_processed w
         \<and> success_count w' + failed_count w' = success_count w + failed_count w + 1
         \<and> length (db_rows w') = length (db_rows w) + 1"
proof -
  obtain p w1 where p: "on_robot (pick_card e) w = (p, w1)"
    by (cases "on_robot (pick_card e) w")
  obtain s w2 where s: "on_robot (move_to_scan_position e) w1 = (s, w2)"
    by (cases "on_robot (move_to_scan_position e) w1")
  define w3 where "w3 = w2\<lparr>n_capture := Suc (n_capture w2)\<rparr>"
  obtain c4 w4 where f: "recognise_frame e w3 = (c4, w4)"
    by (cases "recognise_frame e w3")
  note P = on_robot_policy[OF p] and S = on_robot_policy[OF s] and F = recognise_frame_facts[OF f]
  have w3: "same_policy w2 w3" "same_tally w2 w3"
    by (auto simp: w3_def same_policy_def same_tally_def cleanups_def)
  have step: "(c, w') = (case p of Inl x \<Rightarrow> (Crashed x, w1) | Inr False \<Rightarrow> (PickFailed, w1)
     | Inr True \<Rightarrow> (case s of Inl x \<Rightarrow> (Crashed x, w2) | Inr False \<Rightarrow> (ScanFailed, w2)
        | Inr True \<Rightarrow> if \<not> frames e (n_capture w2) then (CaptureFailed, w3) else (c4, w4)))"
    using assms p s f
    by (auto simp add: process_card_steps_def Let_def w3_def[symmetric] split: sum.splits bool.splits if_splits)
  show "same_policy w w'"
    using step P S F(1) w3
    by (auto simp: same_policy_def split: sum.splits bool.splits if_splits)
  show "same_tally w w'" if "c = PickFailed \<or> c = ScanFailed \<or> c = CaptureFailed"
    using that step P S F(2) w3
    by (auto simp: same_tally_def split: sum.splits bool.splits if_splits)
  show "total_processed w' = total_processed w
         \<and> success_count w' + failed_count w' = success_count w + failed_count w + 1
         \<and> length (db_rows w') = length (db_rows w) + 1" if pf: "c = PlaceFailed \<or> c = HomeFailed"
  proof -
    from pf step have "c = c4 \<and> w' = w4"
      by (auto split: sum.splits bool.splits if_splits)
    with F(3) pf P S w3 show ?thesis by (simp add: same_tally_def)
  qed
qed

lemma process_single_card_policy:
  "process_single_card e w = (ok, w') \<Longrightarrow> same_policy w w'"
  by (cases "process_card_steps e w")
     (auto simp: process_single_card_def dest: process_card_steps_facts(1))



section \<open>The retry loop skips failing attempts\<close>

lemma skip_failing:
  assumes "int attempt < attempts - 1"
      and "snd (results attempt) < confidence_threshold cfg \<or> \<not> validate_card_number cfg (fst (results attempt))"
  shows "recognize_loop cfg results attempts attempt = recognize_loop cfg results attempts (Suc attempt)"
  using assms by (subst recognize_loop.simps) (auto simp: Let_def)

lemma skip_many:
  assumes "int (a + j) < attempts"
      and "\<forall>i. a \<le> i \<and> i < a + j \<longrightarrow> snd (results i) < confidence_threshold cfg \<or> \<not> validate_card_number cfg (fst (results i))"
  shows "recognize_loop cfg results attempts a = recognize_loop cfg results attempts (a + j)"
  using assms
proof (induction j arbitrary: a)
  case 0
  then show ?case by simp
next
  case (Suc j)
  have "recognize_loop cfg results attempts a = recognize_loop cfg results attempts (Suc a)"
    using Suc.prems by (intro skip_failing) auto
  also have "\<dots> = recognize_loop cfg results attempts (Suc a + j)"
    using Suc.prems by (intro Suc.IH) auto
  finally show ?case by simp
qed

section \<open>Evaluating the concrete installation\<close>

lemmas robot_defs =
  on_robot_def pick_card_def place_card_def home_def move_to_scan_position_def
  move_to_position_def move_to_coordinates_def check_workspace_limits_def workspace_limits_def
  dict_get_def send_command_def open_gripper_def close_gripper_def

lemmas cycle_defs =
  process_single_card_def process_card_steps_def recognise_frame_def record_result_def
  deliver_card_def finish_cycle_def print_statistics_def insert_card_def ext_def emit_def
  recognize_card_number_def validate_card_number_def default_card_number_pattern_def

lemmas demo_defs =
  demo_env_def demo_world_def demo_robot_def demo_positions_def demo_ocr_def


section \<open>A position that is not configured\<close>




section \<open>The history of a shutdown\<close>







section \<open>The claims\<close>

text \<open>
  Claim C1. If any of \<open>x\<close>, \<open>y\<close>, \<open>z\<close> lies outside the configured workspace limits,
  \<^verbatim>\<open>move_to_coordinates\<close> returns \<^verbatim>\<open>False\<close> and leaves the arm as it was:
  \<^verbatim>\<open>send_command\<close> is not invoked and nothing is written to the serial connection.
\<close>

theorem move_out_of_bounds_never_sends:
  assumes "x < dict_get (workspace_limits r) ''x_min'' (- 300)
         \<or> dict_get (workspace_limits r) ''x_max'' 300 < x
         \<or> y < dict_get (workspace_limits r) ''y_min'' (- 200)
         \<or> dict_get (workspace_limits r) ''y_max'' 200 < y
         \<or> z < dict_get (workspace_limits r) ''z_min'' 0
         \<or> dict_get (workspace_limits r) ''z_max'' 300 < z"
  shows "move_to_coordinates e r x y z rx ry rz wait = (False, r)
       \<and> send_calls (snd (move_to_coordinates e r x y z rx ry rz wait)) = send_calls r
       \<and> serial_out (snd (move_to_coordinates e r x y z rx ry rz wait)) = serial_out r"
proof -
  from assms have "\<not> check_workspace_limits r x y z"
    unfolding check_workspace_limits_def Let_def by auto
  then show ?thesis by (simp add: move_to_coordinates_def)
qed

text \<open>
  On a connected serial line with the default limits the pose \<open>(301, 0, 50)\<close> is refused
  and nothing is sent, while \<open>(300, 0, 50)\<close> is sent as one command and a newline.
\<close>

theorem move_out_of_bounds_never_sends_witness:
  "dict_get (workspace_limits wired_robot) ''x_max'' 300 < 301
   \<and> move_to_coordinates demo_env wired_robot 301 0 50 0 0 0 True = (False, wired_robot)
   \<and> fst (move_to_coordinates demo_env wired_robot 300 0 50 0 0 0 True)
   \<and> serial_out (snd (move_to_coordinates demo_env wired_robot 300 0 50 0 0 0 True))
       = [Bytes (G0 300 0 50 0 0 0 50), Newline]"
proof -
  have h: "dict_get (workspace_limits wired_robot) ''x_max'' 300 < 301"
    by (simp add: workspace_limits_def wired_robot_def demo_robot_def dict_get_def)
  have "move_to_coordinates demo_env wired_robot 301 0 50 0 0 0 True = (False, wired_robot)"
    using move_out_of_bounds_never_sends [of 301 wired_robot 0 50 demo_env 0 0 0 True] h by simp
  moreover have "move_to_coordinates demo_env wired_robot 300 0 50 0 0 0 True
      = (True, wired_robot\<lparr>send_calls := [G0 300 0 50 0 0 0 50],
                           serial_out := [Bytes (G0 300 0 50 0 0 0 50), Newline]\<rparr>)"
    by (simp add: move_to_coordinates_def check_workspace_limits_def workspace_limits_def
          send_command_def wired_robot_def demo_robot_def demo_env_def dict_get_def Let_def)
  ultimately show ?thesis using h by simp
qed

text \<open>
  Claim C2. \<^verbatim>\<open>_check_workspace_limits\<close> returns true exactly when each of \<open>x\<close>, \<open>y\<close>,
  \<open>z\<close> lies in its configured range, bounds included. The rotations are no argument of
  the check, and whether a move succeeds does not depend on them. With the limits
  \<open>x \<in> [-300, 300]\<close>, \<open>y \<in> [-200, 200]\<close>, \<open>z \<in> [0, 300]\<close>, configured or by default, the
  pose \<open>(301, 0, 50)\<close> is rejected and \<open>(300, 0, 50)\<close> is accepted.
\<close>

theorem workspace_guard_iff:
  "(check_workspace_limits r x y z \<longleftrightarrow>
       dict_get (workspace_limits r) ''x_min'' (- 300) \<le> x
     \<and> x \<le> dict_get (workspace_limits r) ''x_max'' 300
     \<and> dict_get (workspace_limits r) ''y_min'' (- 200) \<le> y
     \<and> y \<le> dict_get (workspace_limits r) ''y_max'' 200
     \<and> dict_get (workspace_limits r) ''z_min'' 0 \<le> z
     \<and> z \<le> dict_get (workspace_limits r) ''z_max'' 300)
   \<and> fst (move_to_coordinates e r x y z rx ry rz wait)
       = fst (move_to_coordinates e r x y z rx' ry' rz' wait)
   \<and> \<not> check_workspace_limits (r\<lparr>safety_workspace_limits := Some demo_limits\<rparr>) 301 0 50
   \<and> check_workspace_limits (r\<lparr>safety_workspace_limits := Some demo_limits\<rparr>) 300 0 50
   \<and> \<not> check_workspace_limits (r\<lparr>safety_workspace_limits := None\<rparr>) 301 0 50
   \<and> check_workspace_limits (r\<lparr>safety_workspace_limits := None\<rparr>) 300 0 50"
proof -
  have a: "check_workspace_limits r x y z \<longleftrightarrow>
       dict_get (workspace_limits r) ''x_min'' (- 300) \<le> x
     \<and> x \<le> dict_get (workspace_limits r) ''x_max'' 300
     \<and> dict_get (workspace_limits r) ''y_min'' (- 200) \<le> y
     \<and> y \<le> dict_get (workspace_limits r) ''y_max'' 200
     \<and> dict_get (workspace_limits r) ''z_min'' 0 \<le> z
     \<and> z \<le> dict_get (workspace_limits r) ''z_max'' 300"
    unfolding check_workspace_limits_def Let_def by meson
  have b: "fst (move_to_coordinates e r x y z rx ry rz wait)
       = fst (move_to_coordinates e r x y z rx' ry' rz' wait)"
    by (simp add: move_to_coordinates_def send_command_def Let_def split: write_fault.splits)
  have c: "\<not> check_workspace_limits (r\<lparr>safety_workspace_limits := Some demo_limits\<rparr>) 301 0 50"
    "check_workspace_limits (r\<lparr>safety_workspace_limits := Some demo_limits\<rparr>) 300 0 50"
    "\<not> check_workspace_limits (r\<lparr>safety_workspace_limits := None\<rparr>) 301 0 50"
    "check_workspace_limits (r\<lparr>safety_workspace_limits := None\<rparr>) 300 0 50"
    by (simp_all add: check_workspace_limits_def workspace_limits_def demo_limits_def
          dict_get_def Let_def)
  from a b c show ?thesis by blast
qed

text \<open>A corner of the default workspace is accepted, a point just below it is not.\<close>

theorem workspace_guard_iff_witness:
  "check_workspace_limits wired_robot 300 200 0 \<and> \<not> check_workspace_limits wired_robot 0 0 (- 1)"
  using workspace_guard_iff [of wired_robot 300 200 0 demo_env 0 0 0 True 0 0 0]
        workspace_guard_iff [of wired_robot 0 0 "- 1" demo_env 0 0 0 True 0 0 0]
  by (simp add: workspace_limits_def wired_robot_def demo_robot_def dict_get_def)

text \<open>
  Claim C3. A cycle whose physical steps all succeed reports success whether the card was
  recognised or rejected. The code breaks this for a reject without text: on a blank card
  every attempt of the engine is \<^verbatim>\<open>(None, 0.0)\<close>, the gate returns
  \<^verbatim>\<open>(None, 0.0, False)\<close>, and storing \<^verbatim>\<open>None\<close> in the \<^verbatim>\<open>NOT NULL\<close> column raises.
  The handler reports the cycle as failed after the pick and the move to the scan
  position; the card is never placed. In the same installation a reject with a text
  completes the cycle with the card on the failed pile, and so does an accepted card on
  the success pile.
\<close>

theorem blank_card_fails_the_cycle:
  "recognize_card_number demo_ocr (\<lambda>i. (None, 0)) True = ((None, 0, False), 3)
   \<and> fst (process_card_steps blank_card_env demo_world) = Crashed IntegrityError
   \<and> \<not> fst (process_single_card blank_card_env demo_world)
   \<and> send_calls (robot (snd (process_single_card blank_card_env demo_world)))
       = [G0 200 0 50 0 90 0 50, M3 100, M3 0, G0 0 (- 150) 80 0 0 0 50]
   \<and> failed_count (snd (process_single_card blank_card_env demo_world)) = 1
   \<and> db_rows (snd (process_single_card blank_card_env demo_world)) = []
   \<and> fst (process_single_card smudged_card_env demo_world)
   \<and> send_calls (robot (snd (process_single_card smudged_card_env demo_world)))
       = [G0 200 0 50 0 90 0 50, M3 100, M3 0, G0 0 (- 150) 80 0 0 0 50,
          G0 (- 200) 100 50 0 90 0 50, M3 100, G0 0 150 200 0 0 0 50]
   \<and> db_rows (snd (process_single_card smudged_card_env demo_world))
       = [(''SMUDGE'', 1 / 5, ''failed'')]
   \<and> fst (process_single_card demo_env demo_world)"
  by (simp add: robot_defs cycle_defs demo_defs blank_card_env_def smudged_card_env_def
        recognize_loop.simps Let_def)

text \<open>
  Claim C4. With retry enabled and \<open>max_retry \<ge> 1\<close>, if each of the \<open>max_retry\<close> attempts
  fails the confidence or the format check, \<^verbatim>\<open>recognize_card_number\<close> returns the text
  and confidence of the last attempt with \<^verbatim>\<open>False\<close>, after exactly \<open>max_retry\<close>
  calls of the engine.
\<close>

theorem exhausted_retries_return_last_attempt:
  assumes "1 \<le> max_retry cfg"
      and "\<forall>i < nat (max_retry cfg).
              snd (results i) < confidence_threshold cfg
            \<or> \<not> validate_card_number cfg (fst (results i))"
  shows "recognize_card_number cfg results True =
           ((fst (results (nat (max_retry cfg) - 1)), snd (results (nat (max_retry cfg) - 1)), False),
            nat (max_retry cfg))"
proof -
  define n where "n = nat (max_retry cfg) - 1"
  from assms(1) have n: "int n = max_retry cfg - 1" "Suc n = nat (max_retry cfg)"
    by (auto simp: n_def)
  have "recognize_loop cfg results (max_retry cfg) 0 = recognize_loop cfg results (max_retry cfg) (0 + n)"
    using assms n by (intro skip_many) auto
  also have "\<dots> = ((fst (results n), snd (results n), False), Suc n)"
  proof -
    have "n < nat (max_retry cfg)" using n by simp
    with assms(2) have "snd (results n) < confidence_threshold cfg
            \<or> \<not> validate_card_number cfg (fst (results n))" by blast
    with n show ?thesis by (subst recognize_loop.simps) (auto simp: Let_def)
  qed
  finally have "recognize_loop cfg results (max_retry cfg) 0
      = ((fst (results n), snd (results n), False), nat (max_retry cfg))"
    by (simp only: n)
  then show ?thesis by (simp add: recognize_card_number_def n_def)
qed

text \<open>Three attempts below the threshold: the third one's text comes back.\<close>

theorem exhausted_retries_return_last_attempt_witness:
  "1 \<le> max_retry demo_ocr
   \<and> (1 / 2 :: real) < confidence_threshold demo_ocr
   \<and> recognize_card_number demo_ocr
        (\<lambda>i. (if i = 2 then Some ''LAST-0003'' else Some ''EARLY-001'', 1 / 2)) True
       = ((Some ''LAST-0003'', 1 / 2, False), 3)"
  using exhausted_retries_return_last_attempt
          [of demo_ocr "\<lambda>i. (if i = 2 then Some ''LAST-0003'' else Some ''EARLY-001'', 1 / 2)"]
  by (simp add: demo_ocr_def)

text \<open>
  Claim C5. If the first \<open>k - 1\<close> attempts fail a check and the \<open>k\<close>-th passes both, with
  \<open>k \<le> max_retry\<close>, then \<^verbatim>\<open>recognize_card_number\<close> returns the \<open>k\<close>-th text and
  confidence with \<^verbatim>\<open>True\<close> after exactly \<open>k\<close> calls of the engine. With retry
  disabled exactly one call is made.
\<close>

theorem first_passing_attempt_is_returned:
  assumes "1 \<le> k" and "int k \<le> max_retry cfg"
      and "\<forall>i < k - 1.
              snd (results i) < confidence_threshold cfg
            \<or> \<not> validate_card_number cfg (fst (results i))"
      and "\<not> snd (results (k - 1)) < confidence_threshold cfg"
      and "validate_card_number cfg (fst (results (k - 1)))"
  shows "recognize_card_number cfg results True =
           ((fst (results (k - 1)), snd (results (k - 1)), True), k)
       \<and> snd (recognize_card_number cfg results False) = 1"
proof -
  have "recognize_loop cfg results (max_retry cfg) 0
          = recognize_loop cfg results (max_retry cfg) (0 + (k - 1))"
    using assms by (intro skip_many) auto
  also have "\<dots> = ((fst (results (k - 1)), snd (results (k - 1)), True), Suc (k - 1))"
    using assms by (subst recognize_loop.simps) (auto simp: Let_def)
  finally have a: "recognize_card_number cfg results True =
           ((fst (results (k - 1)), snd (results (k - 1)), True), k)"
    using assms(1) by (simp add: recognize_card_number_def)
  have b: "snd (recognize_card_number cfg results False) = 1"
    by (simp add: recognize_card_number_def recognize_loop.simps [of _ _ 1 0] Let_def)
  from a b show ?thesis by simp
qed

text \<open>The first attempt is below the threshold, the second passes, the third is never made.\<close>

theorem first_passing_attempt_is_returned_witness:
  "int 2 \<le> max_retry demo_ocr
   \<and> (1 / 2 :: real) < confidence_threshold demo_ocr
   \<and> \<not> (3 / 4 :: real) < confidence_threshold demo_ocr
   \<and> validate_card_number demo_ocr (Some ''ABC-123'')
   \<and> recognize_card_number demo_ocr
        (\<lambda>i. if i = 0 then (Some ''ABC-123'', 1 / 2) else if i = 1 then (Some ''ABC-123'', 3 / 4)
              else (Some ''LATER-999'', 1)) True
       = ((Some ''ABC-123'', 3 / 4, True), 2)"
  using first_passing_attempt_is_returned
          [of 2 demo_ocr "\<lambda>i. if i = 0 then (Some ''ABC-123'', 1 / 2)
                              else if i = 1 then (Some ''ABC-123'', 3 / 4)
                              else (Some ''LATER-999'', 1)"]
  by (simp add: demo_ocr_def validate_card_number_def default_card_number_pattern_def)

text \<open>
  Claim C6. After a failed cycle the loop applies the policy in this order: with
  \<open>stop_on_error\<close> it ends at once, whatever fuel is left; otherwise with \<open>auto_resume\<close>
  it sleeps two seconds and goes on with the next pass; otherwise it prompts the operator
  and goes on only when Enter is pressed.
\<close>

theorem resilience_policy_order:
  assumes "\<not> (max_cards w > 0 \<and> int (total_processed w) \<ge> max_cards w)"
      and "process_single_card e w = (False, w1)"
  shows "run_loop (Suc n) e w =
           (if stop_on_error w then Some (Break, w1)
            else if auto_resume w then run_loop n e (emit (Slept 2) w1)
            else (case keyboard e (n_input w1) of
                    Enter \<Rightarrow> run_loop n e ((emit Prompted w1)\<lparr>n_input := Suc (n_input w1)\<rparr>)
                  | CtrlC \<Rightarrow> Some (Interrupt, (emit Prompted w1)\<lparr>n_input := Suc (n_input w1)\<rparr>)
                  | EndOfInput \<Rightarrow>
                      Some (Escape EOFError, (emit Prompted w1)\<lparr>n_input := Suc (n_input w1)\<rparr>)))"
proof -
  from process_single_card_policy [OF assms(2)]
  have "stop_on_error w1 = stop_on_error w" "auto_resume w1 = auto_resume w"
    by (simp_all add: same_policy_def)
  with assms show ?thesis
    by (auto simp add: run_iteration_def Let_def split: key.splits)
qed

text \<open>
  A missing card pile makes each cycle fail: the loop stops, or pauses and goes on, or
  prompts twice (Enter, then Ctrl-C).
\<close>

theorem resilience_policy_order_witness:
  "run_loop (Suc (Suc 0)) demo_env (no_card_pile_world\<lparr>stop_on_error := True\<rparr>)
      = Some (Break, no_card_pile_world\<lparr>stop_on_error := True\<rparr>)
   \<and> run_iteration demo_env no_card_pile_world = (Continue, emit (Slept 2) no_card_pile_world)
   \<and> run_loop (Suc (Suc 0)) operator_env (no_card_pile_world\<lparr>auto_resume := False\<rparr>)
      = Some (Interrupt, no_card_pile_world\<lparr>auto_resume := False, n_input := 2,
                                           events := [Prompted, Prompted]\<rparr>)"
proof -
  have a: "run_loop (Suc (Suc 0)) demo_env (no_card_pile_world\<lparr>stop_on_error := True\<rparr>)
      = Some (Break, no_card_pile_world\<lparr>stop_on_error := True\<rparr>)"
    using resilience_policy_order [of "no_card_pile_world\<lparr>stop_on_error := True\<rparr>" demo_env
             "no_card_pile_world\<lparr>stop_on_error := True\<rparr>" "Suc 0"]
    by (simp add: robot_defs cycle_defs demo_defs no_card_pile_world_def Let_def)
  have b: "run_iteration demo_env no_card_pile_world = (Continue, emit (Slept 2) no_card_pile_world)"
    by (simp add: run_iteration_def robot_defs cycle_defs demo_defs no_card_pile_world_def Let_def)
  have c1: "run_loop (Suc (Suc 0)) operator_env (no_card_pile_world\<lparr>auto_resume := False\<rparr>)
      = run_loop (Suc 0) operator_env (no_card_pile_world\<lparr>auto_resume := False, n_input := 1, events := [Prompted]\<rparr>)"
    using resilience_policy_order [of "no_card_pile_world\<lparr>auto_resume := False\<rparr>" operator_env
             "no_card_pile_world\<lparr>auto_resume := False\<rparr>" "Suc 0"]
    by (simp add: robot_defs cycle_defs demo_defs no_card_pile_world_def operator_env_def Let_def)
  have c2: "run_loop (Suc 0) operator_env (no_card_pile_world\<lparr>auto_resume := False, n_input := 1, events := [Prompted]\<rparr>)
      = Some (Interrupt, no_card_pile_world\<lparr>auto_resume := False, n_input := 2,
                                           events := [Prompted, Prompted]\<rparr>)"
    using resilience_policy_order [of "no_card_pile_world\<lparr>auto_resume := False, n_input := 1, events := [Prompted]\<rparr>" operator_env
             "no_card_pile_world\<lparr>auto_resume := False, n_input := 1, events := [Prompted]\<rparr>" 0]
    by (simp add: robot_defs cycle_defs demo_defs no_card_pile_world_def operator_env_def Let_def)
  from a b c1 c2 show ?thesis by simp
qed










text \<open>
  Claim C10. With \<open>max_retry = 0\<close> and retry enabled, \<^verbatim>\<open>recognize_card_number\<close> makes no
  call of the engine and returns \<^verbatim>\<open>(None, 0.0, False)\<close>.
\<close>

theorem zero_retries_make_no_attempt:
  "recognize_card_number (cfg\<lparr>max_retry := 0\<rparr>) results True = ((None, 0, False), 0)"
  by (simp add: recognize_card_number_def recognize_loop.simps [of _ _ 0 0])

end
